theory Spec2Isabelle
  imports Complex_Main
begin

section \<open>Values\<close>

text \<open>
  The objective function returns a Python number. The scanner compares it with the
  sentinels \<^verbatim>\<open>float('-inf')\<close> and \<^verbatim>\<open>float('inf')\<close>, so the type of objective values
  holds the two infinities and the not-a-number value next to the finite numbers.
  Finite numbers are exact rationals: Python compares an int with a float exactly, and
  rounding of float arithmetic is outside this development.
\<close>

datatype pynum = NaN | NegInf | Fin rat | PosInf

text \<open>The comparison \<^verbatim>\<open><\<close> of Python numbers: every comparison with NaN is false.\<close>

fun py_lt :: "pynum \<Rightarrow> pynum \<Rightarrow> bool" where
  "py_lt NaN v = False"
| "py_lt u NaN = False"
| "py_lt NegInf NegInf = False"
| "py_lt NegInf v = True"
| "py_lt (Fin x) (Fin y) = (x < y)"
| "py_lt (Fin x) PosInf = True"
| "py_lt (Fin x) NegInf = False"
| "py_lt PosInf v = False"

definition py_gt :: "pynum \<Rightarrow> pynum \<Rightarrow> bool" where
  "py_gt u v = py_lt v u"

definition py_le :: "pynum \<Rightarrow> pynum \<Rightarrow> bool" where
  "py_le u v = (py_lt u v \<or> (u = v \<and> u \<noteq> NaN))"

datatype error = ValueError | TypeError | UnboundLocalError | ArangeError

section \<open>The discrete scanner\<close>

text \<open>
  The loop of \<^verbatim>\<open>maquina_turing_discreta\<close> (lines 14 to 18). Its state is the pair of
  local variables \<^verbatim>\<open>x_opt\<close>, \<^verbatim>\<open>f_opt\<close> and the list of the inputs \<^verbatim>\<open>func\<close> has been
  called on so far, in call order.
\<close>

fun for_dominio ::
  "('a \<Rightarrow> pynum) \<Rightarrow> bool \<Rightarrow> 'a list \<Rightarrow> 'a option \<times> pynum \<times> 'a list
     \<Rightarrow> 'a option \<times> pynum \<times> 'a list" where
  "for_dominio func maximizar [] st = st"
| "for_dominio func maximizar (x # xs) (x_opt, f_opt, evals) =
     (let f_x = func x in
      if (maximizar \<and> py_gt f_x f_opt) \<or> (\<not> maximizar \<and> py_lt f_x f_opt)
      then for_dominio func maximizar xs (Some x, f_x, evals @ [x])
      else for_dominio func maximizar xs (x_opt, f_opt, evals @ [x]))"

text \<open>
  \<^verbatim>\<open>maquina_turing_discreta(func, dominio, maximizar)\<close>: the returned pair
  \<^verbatim>\<open>(x_opt, f_opt)\<close>, and the inputs the objective function was evaluated at.
\<close>

definition maquina_turing_discreta ::
  "('a \<Rightarrow> pynum) \<Rightarrow> 'a list \<Rightarrow> bool \<Rightarrow> ('a option \<times> pynum) \<times> 'a list" where
  "maquina_turing_discreta func dominio maximizar =
     (case for_dominio func maximizar dominio
             (None, if maximizar then NegInf else PosInf, []) of
        (x_opt, f_opt, evals) \<Rightarrow> ((x_opt, f_opt), evals))"

section \<open>The continuous refiner\<close>

text \<open>
  \<^verbatim>\<open>np.arange(start, stop, step)\<close> in exact arithmetic: the values
  \<^verbatim>\<open>start + i * step\<close> for \<^verbatim>\<open>i\<close> below \<^verbatim>\<open>ceil((stop - start) / step)\<close>, none when
  that length is not positive. A zero step is rejected with an error.
\<close>

definition arange :: "rat \<Rightarrow> rat \<Rightarrow> rat \<Rightarrow> error + rat list" where
  "arange start stop step =
     (if step = 0 then Inl ArangeError
      else Inr (map (\<lambda>i. start + of_nat i * step)
                  [0 ..< nat \<lceil>(stop - start) / step\<rceil>]))"

text \<open>Line 36: the candidates of one round.\<close>

definition x_values :: "rat \<Rightarrow> rat \<Rightarrow> rat \<Rightarrow> error + rat list" where
  "x_values a b delta_x = arange a (b + delta_x) delta_x"

text \<open>
  The variables of \<^verbatim>\<open>maquina_turing_continua\<close> that the loop reads and writes:
  the bounds, the step, the pair \<^verbatim>\<open>(x_opt, f_opt)\<close> (unassigned before the first
  round), and the inputs the objective function has been evaluated at.
\<close>

record cstate =
  st_a :: rat
  st_b :: rat
  st_delta_x :: rat
  st_result :: "(rat option \<times> pynum) option"
  st_evals :: "rat list"

text \<open>
  One round (lines 36 to 43). With refinement, \<^verbatim>\<open>x_opt - delta_x\<close> on an absent
  \<^verbatim>\<open>x_opt\<close> raises TypeError. A round that raises gives the error and the
  evaluations made until then.
\<close>

definition iteration ::
  "(rat \<Rightarrow> pynum) \<Rightarrow> bool \<Rightarrow> bool \<Rightarrow> cstate \<Rightarrow> (error \<times> rat list) + cstate" where
  "iteration func maximizar refinamiento s =
     (case x_values (st_a s) (st_b s) (st_delta_x s) of
        Inl e \<Rightarrow> Inl (e, st_evals s)
      | Inr xs \<Rightarrow>
          (case maquina_turing_discreta func xs maximizar of
             ((x_opt, f_opt), evals) \<Rightarrow>
               (let s1 = s\<lparr>st_result := Some (x_opt, f_opt),
                           st_evals := st_evals s @ evals\<rparr> in
                if refinamiento then
                  (case x_opt of
                     None \<Rightarrow> Inl (TypeError, st_evals s1)
                   | Some x \<Rightarrow>
                       Inr (s1\<lparr>st_a := max (st_a s) (x - st_delta_x s),
                               st_b := min (st_b s) (x + st_delta_x s),
                               st_delta_x := st_delta_x s / 2\<rparr>))
                else Inr s1)))"

text \<open>\<^verbatim>\<open>for _ in range(iteraciones)\<close>: the given number of rounds, stopping at an error.\<close>

fun for_range ::
  "(rat \<Rightarrow> pynum) \<Rightarrow> bool \<Rightarrow> bool \<Rightarrow> nat \<Rightarrow> cstate \<Rightarrow> (error \<times> rat list) + cstate" where
  "for_range func maximizar refinamiento 0 s = Inr s"
| "for_range func maximizar refinamiento (Suc n) s =
     (case iteration func maximizar refinamiento s of
        Inl e \<Rightarrow> Inl e
      | Inr s' \<Rightarrow> for_range func maximizar refinamiento n s')"

text \<open>
  \<^verbatim>\<open>maquina_turing_continua\<close>. \<^verbatim>\<open>range(iteraciones)\<close> is empty for a count that is
  not positive; the \<^verbatim>\<open>return\<close> of line 45 reads \<^verbatim>\<open>x_opt\<close> and \<^verbatim>\<open>f_opt\<close>, which raises
  UnboundLocalError when no round has assigned them.
\<close>

definition initial :: "rat \<Rightarrow> rat \<Rightarrow> rat \<Rightarrow> cstate" where
  "initial a b delta_x =
     \<lparr>st_a = a, st_b = b, st_delta_x = delta_x, st_result = None, st_evals = []\<rparr>"

definition maquina_turing_continua ::
  "(rat \<Rightarrow> pynum) \<Rightarrow> rat \<Rightarrow> rat \<Rightarrow> rat \<Rightarrow> bool \<Rightarrow> bool \<Rightarrow> int
     \<Rightarrow> (error + rat option \<times> pynum) \<times> rat list" where
  "maquina_turing_continua func a b delta_x maximizar refinamiento iteraciones =
     (case for_range func maximizar refinamiento (nat iteraciones) (initial a b delta_x) of
        Inl (e, evals) \<Rightarrow> (Inl e, evals)
      | Inr s \<Rightarrow>
          (case st_result s of
             None \<Rightarrow> (Inl UnboundLocalError, st_evals s)
           | Some r \<Rightarrow> (Inr r, st_evals s)))"

section \<open>The dispatcher\<close>

text \<open>
  The values an option of the keyword bag can hold, and Python's truth value of each.
\<close>

datatype pyval = VNone | VBool bool | VInt int | VFloat rat

fun truthy :: "pyval \<Rightarrow> bool" where
  "truthy VNone = False"
| "truthy (VBool c) = c"
| "truthy (VInt i) = (i \<noteq> 0)"
| "truthy (VFloat r) = (r \<noteq> 0)"

text \<open>The argument of \<^verbatim>\<open>range\<close> must be an integer (a bool is one).\<close>

fun as_index :: "pyval \<Rightarrow> error + int" where
  "as_index (VInt i) = Inr i"
| "as_index (VBool c) = Inr (if c then 1 else 0)"
| "as_index v = Inl TypeError"

text \<open>The step enters \<^verbatim>\<open>b + delta_x\<close>, which raises TypeError on None.\<close>

fun as_number :: "pyval \<Rightarrow> error + rat" where
  "as_number (VInt i) = Inr (of_int i)"
| "as_number (VBool c) = Inr (if c then 1 else 0)"
| "as_number (VFloat r) = Inr r"
| "as_number VNone = Inl TypeError"

text \<open>
  The domain argument: a list (or range) of numbers, or a tuple of numbers.
  Both are iterable; only a tuple passes the \<^verbatim>\<open>isinstance\<close> test of line 60.
\<close>

datatype domain = DList "rat list" | DTuple "rat list"

fun elements :: "domain \<Rightarrow> rat list" where
  "elements (DList xs) = xs"
| "elements (DTuple xs) = xs"

fun isinstance_tuple :: "domain \<Rightarrow> bool" where
  "isinstance_tuple (DList xs) = False"
| "isinstance_tuple (DTuple xs) = True"

text \<open>\<^verbatim>\<open>**kwargs\<close>: the option bag, keys in the order given. \<^verbatim>\<open>kwargs.get(k, d)\<close>.\<close>

type_synonym kwargs = "(string \<times> pyval) list"

definition kwargs_get :: "kwargs \<Rightarrow> string \<Rightarrow> pyval \<Rightarrow> pyval" where
  "kwargs_get kw k d = (case map_of kw k of None \<Rightarrow> d | Some v \<Rightarrow> v)"

text \<open>
  Line 58, \<^verbatim>\<open>maquina_turing_discreta(func, dominio, **kwargs)\<close>: Python binds the bag
  to the parameters of the callee before its body runs. The only parameter left
  to bind is \<^verbatim>\<open>maximizar\<close>; any other key raises TypeError (an unexpected keyword,
  or a second value for \<^verbatim>\<open>func\<close> or \<^verbatim>\<open>dominio\<close>).
\<close>

definition call_discreta ::
  "(rat \<Rightarrow> pynum) \<Rightarrow> rat list \<Rightarrow> kwargs \<Rightarrow> (error + rat option \<times> pynum) \<times> rat list" where
  "call_discreta func dominio kw =
     (if filter (\<lambda>k. k \<noteq> ''maximizar'') (map fst kw) \<noteq> [] then (Inl TypeError, [])
      else (case maquina_turing_discreta func dominio
                   (truthy (kwargs_get kw ''maximizar'' (VBool True))) of
              (r, evals) \<Rightarrow> (Inr r, evals)))"

text \<open>
  Lines 62 to 67. The default step \<^verbatim>\<open>0.1\<close> is the rational 1/10. An option of the
  wrong type fails where the callee first uses it: the count in \<^verbatim>\<open>range\<close>, then,
  if a round runs at all, the step in \<^verbatim>\<open>b + delta_x\<close>.
\<close>

definition call_continua ::
  "(rat \<Rightarrow> pynum) \<Rightarrow> rat \<Rightarrow> rat \<Rightarrow> kwargs \<Rightarrow> (error + rat option \<times> pynum) \<times> rat list" where
  "call_continua func a b kw =
     (let delta_x = kwargs_get kw ''delta_x'' (VFloat (1 / 10));
          refinamiento = kwargs_get kw ''refinamiento'' (VBool False);
          iteraciones = kwargs_get kw ''iteraciones'' (VInt 1);
          maximizar = kwargs_get kw ''maximizar'' (VBool True)
      in case as_index iteraciones of
           Inl e \<Rightarrow> (Inl e, [])
         | Inr n \<Rightarrow>
             (case as_number delta_x of
                Inl e \<Rightarrow> (Inl (if n \<le> 0 then UnboundLocalError else e), [])
              | Inr d \<Rightarrow>
                  maquina_turing_continua func a b d (truthy maximizar)
                    (truthy refinamiento) n))"

text \<open>\<^verbatim>\<open>maquina_turing(func, dominio, tipo, **kwargs)\<close>, lines 57 to 69.\<close>

definition maquina_turing ::
  "(rat \<Rightarrow> pynum) \<Rightarrow> domain \<Rightarrow> string \<Rightarrow> kwargs \<Rightarrow> (error + rat option \<times> pynum) \<times> rat list" where
  "maquina_turing func dominio tipo kw =
     (if tipo = ''discreto'' then call_discreta func (elements dominio) kw
      else if tipo = ''continuo'' then
        (if \<not> isinstance_tuple dominio \<or> length (elements dominio) \<noteq> 2
         then (Inl ValueError, [])
         else call_continua func (elements dominio ! 0) (elements dominio ! 1) kw)
      else (Inl ValueError, []))"

section \<open>Objective functions of the examples\<close>

text \<open>
  The demonstration's objective (lines 75 to 80), \<^verbatim>\<open>-x**2 + 4*x\<close>, and two
  objectives of a constant special value, \<^verbatim>\<open>lambda x: float('-inf')\<close> and
  \<^verbatim>\<open>lambda x: float('nan')\<close>, used as concrete inputs below.
\<close>

definition f_discreta :: "rat \<Rightarrow> pynum" where
  "f_discreta x = Fin (- (x ^ 2) + 4 * x)"

definition f_neg_inf :: "rat \<Rightarrow> pynum" where
  "f_neg_inf x = NegInf"

definition f_nan :: "rat \<Rightarrow> pynum" where
  "f_nan x = NaN"

section \<open>The order of objective values\<close>

text \<open>
  The test of line 16 read as one relation: the second value strictly improves on
  the first in the direction of the flag.
\<close>

definition worse :: "bool \<Rightarrow> pynum \<Rightarrow> pynum \<Rightarrow> bool" where
  "worse maximizar u v = (if maximizar then py_lt u v else py_lt v u)"

section \<open>Facts about the order\<close>

lemma py_lt_trans: "py_lt u v \<Longrightarrow> py_lt v w \<Longrightarrow> py_lt u w"
  by (cases u; cases v; cases w) simp_all

lemma py_lt_total: "u \<noteq> NaN \<Longrightarrow> v \<noteq> NaN \<Longrightarrow> py_lt u v \<or> u = v \<or> py_lt v u"
  by (cases u; cases v) auto

lemma worse_trans: "worse m u v \<Longrightarrow> worse m v w \<Longrightarrow> worse m u w"
  by (auto simp: worse_def intro: py_lt_trans split: if_splits)

lemma worse_total: "u \<noteq> NaN \<Longrightarrow> v \<noteq> NaN \<Longrightarrow> worse m u v \<or> u = v \<or> worse m v u"
  using py_lt_total[of u v] by (auto simp: worse_def)

lemma loop_cond: "((m \<and> py_gt u v) \<or> (\<not> m \<and> py_lt u v)) = worse m v u"
  by (auto simp: worse_def py_gt_def)

lemma not_worse_le_max: "u \<noteq> NaN \<Longrightarrow> v \<noteq> NaN \<Longrightarrow> \<not> worse True v u \<Longrightarrow> py_le u v"
  using py_lt_total[of u v] by (auto simp: worse_def py_le_def)

lemma not_worse_le_min: "u \<noteq> NaN \<Longrightarrow> v \<noteq> NaN \<Longrightarrow> \<not> worse False v u \<Longrightarrow> py_le v u"
  using py_lt_total[of u v] by (auto simp: worse_def py_le_def)

lemma worse_NegInf: "v \<noteq> NaN \<Longrightarrow> v \<noteq> NegInf \<Longrightarrow> worse True NegInf v"
  by (cases v) (simp_all add: worse_def)

lemma worse_PosInf: "v \<noteq> NaN \<Longrightarrow> v \<noteq> PosInf \<Longrightarrow> worse False PosInf v"
  by (cases v) (simp_all add: worse_def)

section \<open>The scanning loop\<close>

text \<open>The loop evaluates the objective once at every candidate, in order.\<close>

lemma for_dominio_evals:
  "snd (snd (for_dominio f m xs (xo, fo, ev))) = ev @ xs"
  by (induction xs arbitrary: xo fo ev) (simp_all add: Let_def)

lemma scan_evals: "snd (maquina_turing_discreta f D m) = D"
  using for_dominio_evals[of f m D None "if m then NegInf else PosInf" "[]"]
  by (cases "for_dominio f m D (None, if m then NegInf else PosInf, [])")
     (simp add: maquina_turing_discreta_def)

text \<open>A candidate that never improves on the running best leaves the state alone.\<close>

lemma for_dominio_keep:
  "\<forall>x\<in>set xs. \<not> worse m fo (f x) \<Longrightarrow> for_dominio f m xs (xo, fo, ev) = (xo, fo, ev @ xs)"
  by (induction xs arbitrary: ev) (auto simp: Let_def loop_cond)



text \<open>
  The loop invariant, for values that are all comparable: when some candidate
  improves on the starting value, the loop ends at a candidate that every earlier
  one is strictly worse than and that no later one improves on.
\<close>

lemma for_dominio_first:
  assumes "\<forall>x\<in>set xs. f x \<noteq> NaN" "fo \<noteq> NaN" "\<exists>x\<in>set xs. worse m fo (f x)"
  shows "\<exists>ys x zs. xs = ys @ x # zs \<and> for_dominio f m xs (xo, fo, ev) = (Some x, f x, ev @ xs)
           \<and> worse m fo (f x)
           \<and> (\<forall>y\<in>set ys. worse m (f y) (f x))
           \<and> (\<forall>z\<in>set zs. \<not> worse m (f x) (f z))"
  using assms
proof (induction xs arbitrary: xo fo ev)
  case Nil
  then show ?case by simp
next
  case (Cons a xs)
  show ?case
  proof (cases "worse m fo (f a)")
    case True
    note imp = True
    show ?thesis
    proof (cases "\<exists>x\<in>set xs. worse m (f a) (f x)")
      case True
      from Cons.IH[of "f a" "Some a" "ev @ [a]", OF _ _ True] Cons.prems
      obtain ys x zs where h: "xs = ys @ x # zs"
        "for_dominio f m xs (Some a, f a, ev @ [a]) = (Some x, f x, (ev @ [a]) @ xs)"
        "worse m (f a) (f x)" "\<forall>y\<in>set ys. worse m (f y) (f x)"
        "\<forall>z\<in>set zs. \<not> worse m (f x) (f z)"
        by auto
      have "a # xs = (a # ys) @ x # zs" using h(1) by simp
      moreover have "for_dominio f m (a # xs) (xo, fo, ev) = (Some x, f x, ev @ a # xs)"
        using h(2) imp by (simp add: loop_cond)
      moreover have "worse m fo (f x)" using imp h(3) by (rule worse_trans)
      moreover have "\<forall>y\<in>set (a # ys). worse m (f y) (f x)" using h(3,4) by simp
      ultimately show ?thesis using h(5) by blast
    next
      case False
      then have "\<forall>x\<in>set xs. \<not> worse m (f a) (f x)" by simp
      then have "for_dominio f m xs (Some a, f a, ev @ [a]) = (Some a, f a, (ev @ [a]) @ xs)"
        by (rule for_dominio_keep)
      then have "for_dominio f m (a # xs) (xo, fo, ev) = (Some a, f a, ev @ a # xs)"
        using imp by (simp add: loop_cond)
      moreover have "a # xs = [] @ a # xs" by simp
      ultimately show ?thesis using imp False by (metis empty_iff list.set(1))
    qed
  next
    case False
    with Cons.prems have ex: "\<exists>x\<in>set xs. worse m fo (f x)" by auto
    from Cons.IH[of fo xo "ev @ [a]", OF _ _ ex] Cons.prems
    obtain ys x zs where h: "xs = ys @ x # zs"
      "for_dominio f m xs (xo, fo, ev @ [a]) = (Some x, f x, (ev @ [a]) @ xs)"
      "worse m fo (f x)" "\<forall>y\<in>set ys. worse m (f y) (f x)"
      "\<forall>z\<in>set zs. \<not> worse m (f x) (f z)"
      by auto
    have "f a \<noteq> NaN" using Cons.prems by simp
    then have "worse m (f a) fo \<or> f a = fo"
      using worse_total[of "f a" fo m] False Cons.prems(2) by auto
    then have wa: "worse m (f a) (f x)" using h(3) worse_trans by metis
    have "a # xs = (a # ys) @ x # zs" using h(1) by simp
    moreover have "for_dominio f m (a # xs) (xo, fo, ev) = (Some x, f x, ev @ a # xs)"
      using h(2) False by (simp add: loop_cond)
    moreover have "\<forall>y\<in>set (a # ys). worse m (f y) (f x)" using wa h(4) by simp
    ultimately show ?thesis using h(3,5) by blast
  qed
qed

lemma scan_first_best:
  assumes "\<forall>x\<in>set D. f x \<noteq> NaN"
    and "\<exists>x\<in>set D. f x \<noteq> (if m then NegInf else PosInf)"
  shows "\<exists>ys x zs. D = ys @ x # zs
           \<and> maquina_turing_discreta f D m = ((Some x, f x), D)
           \<and> (\<forall>y\<in>set ys. worse m (f y) (f x))
           \<and> (\<forall>z\<in>set zs. \<not> worse m (f x) (f z))"
proof -
  let ?s = "if m then NegInf else PosInf"
  from assms obtain x where x: "x \<in> set D" "f x \<noteq> ?s" "f x \<noteq> NaN" by blast
  then have "worse m ?s (f x)"
    using worse_NegInf[of "f x"] worse_PosInf[of "f x"] by (cases m) simp_all
  with x(1) have ex: "\<exists>x\<in>set D. worse m ?s (f x)" by blast
  have "?s \<noteq> NaN" by simp
  from for_dominio_first[OF assms(1) this ex, of None "[]"]
  obtain ys x zs where h: "D = ys @ x # zs"
    "for_dominio f m D (None, ?s, []) = (Some x, f x, [] @ D)"
    "\<forall>y\<in>set ys. worse m (f y) (f x)" "\<forall>z\<in>set zs. \<not> worse m (f x) (f z)"
    by blast
  from h(2) have "maquina_turing_discreta f D m = ((Some x, f x), D)"
    by (simp add: maquina_turing_discreta_def)
  with h(1,3,4) show ?thesis by blast
qed

section \<open>The extreme value and the first candidate reaching it\<close>

text \<open>
  C1. As stated for every objective function, the claim fails: an objective that is
  negative infinity everywhere never beats the starting sentinel, so the scanner
  returns an absent input, and one that is NaN everywhere returns the sentinel as
  the value. What holds: when the objective is never NaN on the candidates \<open>D\<close> and
  some candidate's value differs from the starting sentinel, the scanner returns
  \<open>(x, f x)\<close> for a candidate \<open>x\<close> at a position of \<open>D\<close> such that every candidate
  before it has a strictly smaller value and every candidate after it has a value
  that is smaller or equal (maximizing); with the order reversed when minimizing.
  So \<open>f x\<close> is the maximum (minimum) of the objective over \<open>D\<close> and \<open>x\<close> is the first
  candidate that reaches it.
\<close>

theorem discreta_first_extreme:
  assumes "\<forall>x\<in>set D. f x \<noteq> NaN"
  shows "((\<exists>x\<in>set D. f x \<noteq> NegInf) \<longrightarrow>
            (\<exists>ys x zs. D = ys @ x # zs
               \<and> fst (maquina_turing_discreta f D True) = (Some x, f x)
               \<and> (\<forall>y\<in>set ys. py_lt (f y) (f x))
               \<and> (\<forall>z\<in>set zs. py_le (f z) (f x))))
       \<and> ((\<exists>x\<in>set D. f x \<noteq> PosInf) \<longrightarrow>
            (\<exists>ys x zs. D = ys @ x # zs
               \<and> fst (maquina_turing_discreta f D False) = (Some x, f x)
               \<and> (\<forall>y\<in>set ys. py_lt (f x) (f y))
               \<and> (\<forall>z\<in>set zs. py_le (f x) (f z))))"
proof (intro conjI impI)
  assume "\<exists>x\<in>set D. f x \<noteq> NegInf"
  then have "\<exists>x\<in>set D. f x \<noteq> (if True then NegInf else PosInf)" by simp
  from scan_first_best[OF assms this]
  obtain ys x zs where h: "D = ys @ x # zs"
    "maquina_turing_discreta f D True = ((Some x, f x), D)"
    "\<forall>y\<in>set ys. worse True (f y) (f x)" "\<forall>z\<in>set zs. \<not> worse True (f x) (f z)"
    by blast
  have "\<forall>z\<in>set zs. py_le (f z) (f x)"
    using h(1,4) assms by (auto intro!: not_worse_le_max)
  moreover have "\<forall>y\<in>set ys. py_lt (f y) (f x)" using h(3) by (simp add: worse_def)
  ultimately show "\<exists>ys x zs. D = ys @ x # zs
               \<and> fst (maquina_turing_discreta f D True) = (Some x, f x)
               \<and> (\<forall>y\<in>set ys. py_lt (f y) (f x))
               \<and> (\<forall>z\<in>set zs. py_le (f z) (f x))"
    using h(1,2) by (metis fst_conv)
next
  assume "\<exists>x\<in>set D. f x \<noteq> PosInf"
  then have "\<exists>x\<in>set D. f x \<noteq> (if False then NegInf else PosInf)" by simp
  from scan_first_best[OF assms this]
  obtain ys x zs where h: "D = ys @ x # zs"
    "maquina_turing_discreta f D False = ((Some x, f x), D)"
    "\<forall>y\<in>set ys. worse False (f y) (f x)" "\<forall>z\<in>set zs. \<not> worse False (f x) (f z)"
    by blast
  have "\<forall>z\<in>set zs. py_le (f x) (f z)"
    using h(1,4) assms by (auto intro!: not_worse_le_min)
  moreover have "\<forall>y\<in>set ys. py_lt (f x) (f y)" using h(3) by (simp add: worse_def)
  ultimately show "\<exists>ys x zs. D = ys @ x # zs
               \<and> fst (maquina_turing_discreta f D False) = (Some x, f x)
               \<and> (\<forall>y\<in>set ys. py_lt (f x) (f y))
               \<and> (\<forall>z\<in>set zs. py_le (f x) (f z))"
    using h(1,2) by (metis fst_conv)
qed

text \<open>
  On the candidates 0 to 4 the demonstration's objective has its maximum 4 at 2, and
  its minimum 0 at both 0 and 4: the earlier one is returned.
\<close>

theorem discreta_first_extreme_witness:
  "NaN \<notin> f_discreta ` set [0, 1, 2, 3, 4]
   \<and> f_discreta 0 \<noteq> NegInf \<and> f_discreta 0 \<noteq> PosInf
   \<and> fst (maquina_turing_discreta f_discreta [0, 1, 2, 3, 4] True) = (Some 2, Fin 4)
   \<and> fst (maquina_turing_discreta f_discreta [0, 1, 2, 3, 4] False) = (Some 0, Fin 0)"
  using discreta_first_extreme[of "[0, 1, 2, 3, 4]" f_discreta]
  by (simp add: maquina_turing_discreta_def f_discreta_def py_gt_def)

text \<open>
  The inputs at which the claim as stated fails: a non-empty sequence, and the
  result holds no candidate at all.
\<close>

theorem discreta_first_extreme_counterexample:
  "fst (maquina_turing_discreta f_neg_inf [1, 2] True) = (None, NegInf)
   \<and> fst (maquina_turing_discreta f_nan [1, 2] True) = (None, NegInf)
   \<and> fst (maquina_turing_discreta f_nan [1, 2] False) = (None, PosInf)"
  by (simp add: maquina_turing_discreta_def f_neg_inf_def f_nan_def py_gt_def)

section \<open>The returned value is the objective at the returned input\<close>

text \<open>
  C9. As stated (non-empty candidates, no NaN) the claim fails where every value
  equals the starting sentinel: the scanner then returns an absent input with the
  sentinel. What holds: for non-empty \<open>D\<close>, an objective that is never NaN on \<open>D\<close>
  and some candidate whose value differs from the starting sentinel (negative
  infinity when maximizing, positive infinity when minimizing), the returned pair is
  \<open>(x, f x)\<close> for an element \<open>x\<close> of \<open>D\<close>.
\<close>

theorem discreta_returns_evaluated:
  assumes "D \<noteq> []" and "\<forall>x\<in>set D. f x \<noteq> NaN"
    and "\<exists>x\<in>set D. f x \<noteq> (if maximizar then NegInf else PosInf)"
  shows "\<exists>x\<in>set D. fst (maquina_turing_discreta f D maximizar) = (Some x, f x)"
  using scan_first_best[OF assms(2,3)] by fastforce

theorem discreta_returns_evaluated_witness:
  "[3, 1, 2] \<noteq> ([] :: rat list) \<and> NaN \<notin> f_discreta ` set [3, 1, 2]
   \<and> f_discreta 3 \<noteq> PosInf
   \<and> fst (maquina_turing_discreta f_discreta [3, 1, 2] False) = (Some 3, f_discreta 3)
   \<and> 3 \<in> set [3, 1, 2 :: rat]"
  using discreta_returns_evaluated[of "[3, 1, 2]" f_discreta False]
  by (simp add: maquina_turing_discreta_def f_discreta_def py_gt_def)

theorem discreta_returns_evaluated_counterexample:
  "[0] \<noteq> ([] :: rat list) \<and> f_neg_inf 0 \<noteq> NaN
   \<and> fst (maquina_turing_discreta f_neg_inf [0] True) = (None, NegInf)"
  by (simp add: maquina_turing_discreta_def f_neg_inf_def py_gt_def)

section \<open>The empty candidate sequence\<close>

text \<open>
  C4. On the empty sequence the scanner returns an absent best input with the
  sentinel it started from, negative infinity when maximizing and positive infinity
  when minimizing, having evaluated nothing; the result is an ordinary return value.
\<close>

theorem discreta_empty:
  "maquina_turing_discreta func [] maximizar
     = ((None, if maximizar then NegInf else PosInf), [])"
  by (simp add: maquina_turing_discreta_def)

section \<open>No round, no result\<close>

text \<open>
  C10. With a count of rounds that is zero or negative the loop body never runs, the
  result variables are never assigned, and the call ends in UnboundLocalError
  without evaluating the objective, whatever the other arguments are.
\<close>

theorem continua_needs_round:
  "iteraciones \<le> 0 \<Longrightarrow>
     maquina_turing_continua func a b delta_x maximizar refinamiento iteraciones
       = (Inl UnboundLocalError, [])"
  by (simp add: maquina_turing_continua_def initial_def)

theorem continua_needs_round_witness:
  "(0::int) \<le> 0 \<and> (- 3 :: int) \<le> 0
   \<and> maquina_turing_continua f_discreta 0 4 (1 / 10) True True 0 = (Inl UnboundLocalError, [])
   \<and> maquina_turing_continua f_discreta 0 4 (1 / 10) True False (- 3)
       = (Inl UnboundLocalError, [])"
  using continua_needs_round[of 0 f_discreta 0 4 "1 / 10" True True]
    continua_needs_round[of "- 3" f_discreta 0 4 "1 / 10" True False]
  by simp

section \<open>Rounds without refinement\<close>

lemma iteration_plain:
  "iteration f m False s =
     (case x_values (st_a s) (st_b s) (st_delta_x s) of
        Inl e \<Rightarrow> Inl (e, st_evals s)
      | Inr xs \<Rightarrow> Inr (s\<lparr>st_result := Some (fst (maquina_turing_discreta f xs m)),
                         st_evals := st_evals s @ xs\<rparr>))"
proof (cases "x_values (st_a s) (st_b s) (st_delta_x s)")
  case (Inl e)
  then show ?thesis by (simp add: iteration_def)
next
  case (Inr xs)
  obtain r ev where r: "maquina_turing_discreta f xs m = (r, ev)"
    by (cases "maquina_turing_discreta f xs m")
  with scan_evals[of f xs m] have "ev = xs" by simp
  with r Inr show ?thesis
    by (cases r) (simp add: iteration_def)
qed

text \<open>
  Without refinement the bounds and the step never change, so any number of rounds
  ends with the result of the first, having evaluated the same grid once per round.
\<close>

lemma for_range_plain:
  "for_range f m False (Suc n) s =
     (case x_values (st_a s) (st_b s) (st_delta_x s) of
        Inl e \<Rightarrow> Inl (e, st_evals s)
      | Inr xs \<Rightarrow> Inr (s\<lparr>st_result := Some (fst (maquina_turing_discreta f xs m)),
                         st_evals := st_evals s @ concat (replicate (Suc n) xs)\<rparr>))"
proof (induction n arbitrary: s)
  case 0
  show ?case by (simp add: iteration_plain split: sum.splits)
next
  case (Suc n)
  have "for_range f m False (Suc (Suc n)) s =
      (case iteration f m False s of Inl e \<Rightarrow> Inl e | Inr s' \<Rightarrow> for_range f m False (Suc n) s')"
    by simp
  then show ?case
    unfolding Suc.IH by (simp add: iteration_plain split: sum.splits)
qed

text \<open>
  C2. For bounds \<open>a \<le> b\<close> and a positive step, one round without refinement returns
  the pair the discrete scanner returns on the generated grid (the candidates built
  with end bound \<open>b + delta_x\<close>), and evaluates the objective exactly on that grid.
\<close>

theorem continua_single_round:
  assumes "a \<le> b" and "0 < delta_x"
  shows "\<exists>xs. x_values a b delta_x = Inr xs
           \<and> maquina_turing_continua func a b delta_x maximizar False 1
               = (Inr (fst (maquina_turing_discreta func xs maximizar)),
                  snd (maquina_turing_discreta func xs maximizar))"
proof -
  from assms(2) obtain xs where xs: "x_values a b delta_x = Inr xs"
    by (simp add: x_values_def arange_def)
  have "for_range func maximizar False (Suc 0) (initial a b delta_x)
          = Inr ((initial a b delta_x)
                   \<lparr>st_result := Some (fst (maquina_turing_discreta func xs maximizar)),
                    st_evals := xs\<rparr>)"
    using xs by (simp add: iteration_plain initial_def)
  then show ?thesis using xs
    by (simp add: maquina_turing_continua_def scan_evals)
qed

theorem continua_single_round_witness:
  "(0::rat) \<le> 1 \<and> (0::rat) < 1 / 2
   \<and> x_values 0 1 (1 / 2) = Inr [0, 1 / 2, 1]
   \<and> maquina_turing_continua f_discreta 0 1 (1 / 2) True False 1
       = (Inr (Some 1, Fin 3), [0, 1 / 2, 1])"
  using continua_single_round[of 0 1 "1 / 2" f_discreta True]
  by (simp add: x_values_def arange_def upt_conv_Cons maquina_turing_discreta_def
        f_discreta_def py_gt_def power2_eq_square)

text \<open>
  C7. Without refinement, any count \<open>N \<ge> 1\<close> of rounds returns the same outcome as
  one round, and every one of the \<open>N\<close> rounds recomputes it: the objective is
  evaluated on the grid of the first round once per round, \<open>N\<close> times in all, and
  the bounds and the step after the last round are the ones the call started with.
  (The bounds and the step need no condition: a step of zero fails the same way,
  with no evaluation, for every \<open>N\<close>.)
\<close>

theorem continua_repeats_first_round:
  assumes "1 \<le> N"
  shows "fst (maquina_turing_continua func a b delta_x maximizar False N)
           = fst (maquina_turing_continua func a b delta_x maximizar False 1)
       \<and> snd (maquina_turing_continua func a b delta_x maximizar False N)
           = concat (replicate (nat N)
               (snd (maquina_turing_continua func a b delta_x maximizar False 1)))
       \<and> (\<forall>t. for_range func maximizar False (nat N) (initial a b delta_x) = Inr t \<longrightarrow>
             st_a t = a \<and> st_b t = b \<and> st_delta_x t = delta_x)"
proof -
  from assms obtain n where n: "nat N = Suc n" by (cases "nat N") auto
  have one: "nat (1::int) = Suc 0" by simp
  show ?thesis
  proof (cases "x_values a b delta_x")
    case (Inl e)
    then show ?thesis
      unfolding maquina_turing_continua_def n one for_range_plain
      by (simp add: initial_def)
  next
    case (Inr xs)
    then show ?thesis
      unfolding maquina_turing_continua_def n one for_range_plain
      by (simp add: initial_def)
  qed
qed

text \<open>
  Three rounds on [0, 1] with step 1/2 return what one round returns and evaluate
  the three grid points three times over.
\<close>

theorem continua_repeats_first_round_witness:
  "(1::int) \<le> 3
   \<and> maquina_turing_continua f_discreta 0 1 (1 / 2) True False 3
       = (Inr (Some 1, Fin 3), [0, 1 / 2, 1, 0, 1 / 2, 1, 0, 1 / 2, 1])
   \<and> maquina_turing_continua f_discreta 0 1 (1 / 2) True False 1
       = (Inr (Some 1, Fin 3), [0, 1 / 2, 1])"
proof -
  have one: "maquina_turing_continua f_discreta 0 1 (1 / 2) True False 1
          = (Inr (Some 1, Fin 3), [0, 1 / 2, 1])"
    by code_simp
  have three: "concat (replicate 3 [0, 1 / 2, 1 :: rat])
                 = [0, 1 / 2, 1, 0, 1 / 2, 1, 0, 1 / 2, 1]"
    by (simp add: numeral_3_eq_3)
  from continua_repeats_first_round[of 3 f_discreta 0 1 "1 / 2" True]
  have "fst (maquina_turing_continua f_discreta 0 1 (1 / 2) True False 3)
          = Inr (Some 1, Fin 3)"
    and "snd (maquina_turing_continua f_discreta 0 1 (1 / 2) True False 3)
          = [0, 1 / 2, 1, 0, 1 / 2, 1, 0, 1 / 2, 1]"
    by (simp_all add: one three)
  then show ?thesis using one by (simp add: prod_eq_iff)
qed

section \<open>The grid of a round\<close>

lemma grid_length:
  assumes "a \<le> b" and "0 < d"
  shows "nat \<lceil>(b + d - a) / d\<rceil> = Suc (nat \<lceil>(b - a) / d\<rceil>)"
proof -
  have "(b + d - a) / d = (b - a) / d + 1"
    using assms(2) by (simp add: field_simps)
  moreover have "0 \<le> (b - a) / d" using assms by simp
  then have "0 \<le> \<lceil>(b - a) / d\<rceil>"
    by (simp add: ceiling_le_iff order_trans[OF _ le_of_int_ceiling])
  ultimately show ?thesis by (simp add: nat_add_distrib)
qed

lemma grid_last_ge:
  assumes "a \<le> b" and "0 < d"
  shows "b \<le> a + of_nat (nat \<lceil>(b - a) / d\<rceil>) * d"
proof -
  have "0 \<le> (b - a) / d" using assms by simp
  then have nn: "0 \<le> \<lceil>(b - a) / d\<rceil>" by (smt (verit) ceiling_mono ceiling_zero)
  have "(b - a) / d \<le> of_int \<lceil>(b - a) / d\<rceil>" by (rule le_of_int_ceiling)
  also have "\<dots> = of_nat (nat \<lceil>(b - a) / d\<rceil>)" using nn by simp
  finally have "b - a \<le> of_nat (nat \<lceil>(b - a) / d\<rceil>) * d"
    using assms(2) by (simp add: pos_divide_le_eq)
  then show ?thesis by simp
qed

lemma grid_before_lt:
  assumes "0 < d" and "i < nat \<lceil>(b - a) / d\<rceil>"
  shows "a + of_nat i * d < b"
proof -
  from assms(2) have "int i < \<lceil>(b - a) / d\<rceil>" by simp
  then have "of_int (int i) < (b - a) / d" by (simp only: less_ceiling_iff)
  then have "of_nat i * d < b - a" using assms(1) by (simp add: pos_less_divide_eq)
  then show ?thesis by simp
qed


text \<open>
  C5. In exact arithmetic, for \<open>a \<le> b\<close> and a positive step, the candidates of a
  round are \<open>a, a + delta_x, \<dots>, a + n * delta_x\<close> where the last one is the first
  that reaches \<open>b\<close>: it is at least \<open>b\<close> and every earlier one is below \<open>b\<close>. When
  \<open>b - a\<close> is the \<open>k\<close>-fold step, the last candidate is the \<open>k\<close>-th, which is \<open>b\<close>.
\<close>

theorem x_values_grid:
  assumes "a \<le> b" and "0 < delta_x"
  shows "\<exists>n. x_values a b delta_x = Inr (map (\<lambda>i. a + of_nat i * delta_x) [0 ..< Suc n])
           \<and> b \<le> a + of_nat n * delta_x
           \<and> (\<forall>i<n. a + of_nat i * delta_x < b)
           \<and> (\<forall>k::nat. b = a + of_nat k * delta_x \<longrightarrow> n = k)"
proof -
  let ?n = "nat \<lceil>(b - a) / delta_x\<rceil>"
  have "x_values a b delta_x = Inr (map (\<lambda>i. a + of_nat i * delta_x) [0 ..< Suc ?n])"
    using assms(2) grid_length[OF assms] by (simp add: x_values_def arange_def)
  moreover have "b \<le> a + of_nat ?n * delta_x" using assms by (rule grid_last_ge)
  moreover have "\<forall>i<?n. a + of_nat i * delta_x < b"
    using grid_before_lt[OF assms(2)] by blast
  moreover have "\<forall>k::nat. b = a + of_nat k * delta_x \<longrightarrow> ?n = k"
  proof (intro allI impI)
    fix k :: nat assume "b = a + of_nat k * delta_x"
    then have "(b - a) / delta_x = of_int (int k)" using assms(2) by simp
    then have "\<lceil>(b - a) / delta_x\<rceil> = int k" by (simp only: ceiling_of_int)
    then show "?n = k" by simp
  qed
  ultimately show ?thesis by blast
qed

text \<open>
  With step 1/2 the grid of [0, 1] ends exactly at 1; with step 2/3 it ends at 4/3,
  the first value past 1.
\<close>

theorem x_values_grid_witness:
  "(0::rat) \<le> 1 \<and> (0::rat) < 1 / 2 \<and> (0::rat) < 2 / 3
   \<and> x_values 0 1 (1 / 2) = Inr [0, 1 / 2, 1]
   \<and> x_values 0 1 (2 / 3) = Inr [0, 2 / 3, 4 / 3]"
proof -
  have "x_values 0 1 (1 / 2) = Inr [0, 1 / 2, 1]" by code_simp
  moreover have "x_values 0 1 (2 / 3) = Inr [0, 2 / 3, 4 / 3]" by code_simp
  ultimately show ?thesis
    using x_values_grid[of 0 1 "1 / 2"] x_values_grid[of 0 1 "2 / 3"] by simp
qed

section \<open>Rounds with refinement\<close>







section \<open>Validation in the dispatcher\<close>

text \<open>
  C3. The two mode strings the dispatcher knows are \<^verbatim>\<open>"discreto"\<close> (discrete) and
  \<^verbatim>\<open>"continuo"\<close> (continuous). For every objective, domain and option bag: a mode
  string that is neither of them ends in ValueError, and so does the continuous
  mode on a domain that is not a tuple of exactly two elements. In both cases the
  list of evaluations is empty: the objective is never called, and the error is the
  outcome of the call.
\<close>

theorem dispatcher_rejects:
  "(tipo \<noteq> ''discreto'' \<and> tipo \<noteq> ''continuo'' \<longrightarrow>
      maquina_turing func dominio tipo kw = (Inl ValueError, []))
   \<and> (\<not> (isinstance_tuple dominio \<and> length (elements dominio) = 2) \<longrightarrow>
      maquina_turing func dominio ''continuo'' kw = (Inl ValueError, []))"
  by (simp add: maquina_turing_def)

theorem dispatcher_rejects_witness:
  "''bogus'' \<noteq> ''discreto'' \<and> ''bogus'' \<noteq> ''continuo''
   \<and> maquina_turing f_discreta (DList [1, 2, 3]) ''bogus'' [] = (Inl ValueError, [])
   \<and> isinstance_tuple (DList [0, 4]) = False
   \<and> maquina_turing f_discreta (DList [0, 4]) ''continuo'' [] = (Inl ValueError, [])
   \<and> length (elements (DTuple [0, 2, 4])) = 3
   \<and> maquina_turing f_discreta (DTuple [0, 2, 4]) ''continuo''
        [(''iteraciones'', VInt 2)] = (Inl ValueError, [])"
  using dispatcher_rejects[of "''bogus''" f_discreta "DList [1, 2, 3]" "[]"]
    dispatcher_rejects[of "''continuo''" f_discreta "DList [0, 4]" "[]"]
    dispatcher_rejects[of "''continuo''" f_discreta "DTuple [0, 2, 4]"
      "[(''iteraciones'', VInt 2)]"]
  by simp

section \<open>The option bag in discrete mode\<close>

text \<open>
  C8. As stated the claim fails: in discrete mode the whole option bag is passed on
  to the scanner as keyword arguments, and a key the scanner has no parameter for
  raises TypeError. What holds: when the bag holds no key other than
  \<^verbatim>\<open>maximizar\<close>, the call returns the scanner's result for that flag (true when the
  key is absent) after evaluating the objective on every element of the domain;
  when it holds any other key, the call ends in TypeError and the objective is
  never evaluated.
\<close>

theorem discrete_mode_forwards_bag:
  "(set (map fst kw) \<subseteq> {''maximizar''} \<longrightarrow>
      maquina_turing func dominio ''discreto'' kw
        = (Inr (fst (maquina_turing_discreta func (elements dominio)
                       (truthy (kwargs_get kw ''maximizar'' (VBool True))))),
           elements dominio))
   \<and> (\<not> set (map fst kw) \<subseteq> {''maximizar''} \<longrightarrow>
      maquina_turing func dominio ''discreto'' kw = (Inl TypeError, []))"
proof -
  let ?m = "truthy (kwargs_get kw ''maximizar'' (VBool True))"
  have keys: "(filter (\<lambda>k. k \<noteq> ''maximizar'') (map fst kw) = [])
                = (set (map fst kw) \<subseteq> {''maximizar''})"
    by (auto simp: filter_empty_conv)
  obtain r ev where r: "maquina_turing_discreta func (elements dominio) ?m = (r, ev)"
    by (cases "maquina_turing_discreta func (elements dominio) ?m")
  with scan_evals[of func "elements dominio" ?m] have "ev = elements dominio" by simp
  with r show ?thesis
    unfolding maquina_turing_def call_discreta_def keys by simp
qed

theorem discrete_mode_forwards_bag_witness:
  "maquina_turing f_discreta (DList [0, 1, 2, 3]) ''discreto'' [(''maximizar'', VBool False)]
     = (Inr (Some 0, Fin 0), [0, 1, 2, 3])
   \<and> maquina_turing f_discreta (DList [0, 1, 2, 3]) ''discreto'' []
     = (Inr (Some 2, Fin 4), [0, 1, 2, 3])
   \<and> maquina_turing f_discreta (DList [0, 1, 2, 3]) ''discreto''
       [(''maximizar'', VBool False), (''iteraciones'', VInt 2)] = (Inl TypeError, [])"
proof -
  have "fst (maquina_turing_discreta f_discreta [0, 1, 2, 3] False) = (Some 0, Fin 0)"
    by code_simp
  moreover have "fst (maquina_turing_discreta f_discreta [0, 1, 2, 3] True) = (Some 2, Fin 4)"
    by code_simp
  ultimately show ?thesis
    using discrete_mode_forwards_bag[of "[(''maximizar'', VBool False)]" f_discreta
        "DList [0, 1, 2, 3]"]
      discrete_mode_forwards_bag[of "[]" f_discreta "DList [0, 1, 2, 3]"]
      discrete_mode_forwards_bag[of "[(''maximizar'', VBool False), (''iteraciones'', VInt 2)]"
        f_discreta "DList [0, 1, 2, 3]"]
    by (simp add: kwargs_get_def)
qed

text \<open>
  The same call with and without the extra key \<^verbatim>\<open>delta_x\<close>: the first raises,
  the second returns the maximum.
\<close>

theorem discrete_mode_extra_key_counterexample:
  "maquina_turing f_discreta (DList [0, 1, 2, 3]) ''discreto''
       [(''maximizar'', VBool True), (''delta_x'', VFloat (1 / 10))] = (Inl TypeError, [])
   \<and> maquina_turing f_discreta (DList [0, 1, 2, 3]) ''discreto''
       [(''maximizar'', VBool True)] = (Inr (Some 2, Fin 4), [0, 1, 2, 3])"
  by code_simp

end
